theory Spec2Isabelle
  imports Complex_Main
begin

section \<open>JavaScript numbers\<close>

text \<open>
  A JavaScript number is NaN, an infinity or a finite value. A finite value is kept as the
  real number it denotes; both signed zeros are \<open>Fin 0\<close>, which is all the comparison
  \<open>!= 0\<close> of the module can see of them.
\<close>

datatype number = NaN | PInf | NInf | Fin real

text \<open>The comparison \<open>a != b\<close> on numbers: NaN differs from everything, itself included.\<close>

definition js_neq :: "number \<Rightarrow> number \<Rightarrow> bool" where
  "js_neq a b = (a = NaN \<or> b = NaN \<or> a \<noteq> b)"

text \<open>
  Arithmetic rounds. The rounding of a nonzero real to a double is a parameter \<open>rnd\<close>
  of the model (it may underflow to zero or overflow to an infinity); zero is a double and
  rounds to itself.
\<close>

definition fl :: "(real \<Rightarrow> number) \<Rightarrow> real \<Rightarrow> number" where
  "fl rnd x = (if x = 0 then Fin 0 else rnd x)"

fun sign_of :: "number \<Rightarrow> real" where
  "sign_of NaN = 0"
| "sign_of PInf = 1"
| "sign_of NInf = - 1"
| "sign_of (Fin x) = sgn x"

definition inf_of_sign :: "real \<Rightarrow> number" where
  "inf_of_sign s = (if s = 0 then NaN else if 0 < s then PInf else NInf)"

fun fmul :: "(real \<Rightarrow> number) \<Rightarrow> number \<Rightarrow> number \<Rightarrow> number" where
  "fmul rnd NaN b = NaN"
| "fmul rnd a NaN = NaN"
| "fmul rnd (Fin x) (Fin y) = fl rnd (x * y)"
| "fmul rnd a b = inf_of_sign (sign_of a * sign_of b)"

fun fadd :: "(real \<Rightarrow> number) \<Rightarrow> number \<Rightarrow> number \<Rightarrow> number" where
  "fadd rnd NaN b = NaN"
| "fadd rnd a NaN = NaN"
| "fadd rnd (Fin x) (Fin y) = fl rnd (x + y)"
| "fadd rnd PInf NInf = NaN"
| "fadd rnd NInf PInf = NaN"
| "fadd rnd (Fin x) b = b"
| "fadd rnd a b = a"

section \<open>Typed arrays and the store\<close>

text \<open>
  A \<open>Float32Array\<close> is an object of fixed length, passed by reference. The store maps
  references to contents; \<open>next_ref\<close> is the first reference not yet allocated. The
  messages given to \<open>m_print.error\<close> are collected in \<open>error_log\<close>.
\<close>

type_synonym ref = nat

type_synonym float32array = "number list"

record state =
  heap :: "ref \<Rightarrow> float32array"
  next_ref :: ref
  error_log :: "string list"

text \<open>\<open>new Float32Array(n)\<close>: a fresh array of \<open>n\<close> zeros.\<close>

definition new_Float32Array :: "nat \<Rightarrow> state \<Rightarrow> ref \<times> state" where
  "new_Float32Array n s =
     (next_ref s,
      s\<lparr>heap := (heap s)(next_ref s := replicate n (Fin 0)), next_ref := Suc (next_ref s)\<rparr>)"

text \<open>\<open>new Float32Array([...])\<close>: a fresh array holding the given elements.\<close>

definition new_Float32Array_of :: "float32array \<Rightarrow> state \<Rightarrow> ref \<times> state" where
  "new_Float32Array_of xs s =
     (next_ref s, s\<lparr>heap := (heap s)(next_ref s := xs), next_ref := Suc (next_ref s)\<rparr>)"

text \<open>
  An indexed read \<open>a[i]\<close>: out of range it yields \<open>undefined\<close>, which arithmetic
  turns into NaN.
\<close>

definition elem :: "float32array \<Rightarrow> nat \<Rightarrow> number" where
  "elem a i = (if i < length a then a ! i else NaN)"

text \<open>
  The assignments \<open>d[0] = v0; ...; d[n-1] = vn-1\<close> to an array with contents \<open>old\<close>:
  an assignment beyond the length of a typed array is ignored, the length never changes.
\<close>

definition assign :: "float32array \<Rightarrow> float32array \<Rightarrow> float32array" where
  "assign old vs = take (length old) vs @ drop (length vs) old"

definition store :: "ref \<Rightarrow> float32array \<Rightarrow> state \<Rightarrow> state" where
  "store d vs s = s\<lparr>heap := (heap s)(d := assign (heap s d) vs)\<rparr>"

section \<open>The required modules\<close>

text \<open>
  Modelled from the spec: \<open>m_vec3.dot\<close> of the required module \<open>vec3\<close>, which
  is not among the sources: the dot product of two 3-vectors, as the spec's precondition
  \<open>dot(plane_normal, plane_ident_dir) == 0\<close> reads it.
\<close>

definition vec3_dot :: "(real \<Rightarrow> number) \<Rightarrow> float32array \<Rightarrow> float32array \<Rightarrow> number" where
  "vec3_dot rnd a b =
     fadd rnd (fadd rnd (fmul rnd (elem a 0) (elem b 0)) (fmul rnd (elem a 1) (elem b 1)))
       (fmul rnd (elem a 2) (elem b 2))"

text \<open>
  Modelled from the spec: \<open>m_print.error\<close> of the required module \<open>__print\<close>,
  which is not among the sources: the logging collaborator, which reports the message.
\<close>

definition print_error :: "string \<Rightarrow> state \<Rightarrow> state" where
  "print_error msg s = s\<lparr>error_log := error_log s @ [msg]\<rparr>"

text \<open>
  A loosely typed argument: a primitive value, a typed array by reference, or any other
  object (a plain array, an engine object) by its identity.
\<close>

datatype jsval =
    Undefined
  | Null
  | Boolean bool
  | Number number
  | String string
  | Typed_array ref
  | Object nat

text \<open>
  The internal module \<open>__util\<close> is not among the sources, and the spec gives no
  formula for its conversions. Its numeric kernels (functions from the contents of the
  argument arrays to the components of the result), the rounding of the arithmetic and
  the references of its own axis constants are the fields of the environment.
\<close>

record env =
  rnd :: "real \<Rightarrow> number"
  util_AXIS_Y :: ref
  util_AXIS_MY :: ref
  util_AXIS_MZ :: ref
  num_matrix_to_quat :: "float32array \<Rightarrow> float32array"
  num_euler_to_quat :: "float32array \<Rightarrow> float32array"
  num_quat_to_euler :: "float32array \<Rightarrow> float32array"
  num_quat_to_dir :: "float32array \<Rightarrow> float32array \<Rightarrow> float32array"
  num_quat_project ::
    "float32array \<Rightarrow> float32array \<Rightarrow> float32array \<Rightarrow> float32array \<Rightarrow> float32array"
  num_cam_quat_to_mesh_quat :: "float32array \<Rightarrow> float32array"
  num_smooth_v :: "float32array \<Rightarrow> float32array \<Rightarrow> number \<Rightarrow> number \<Rightarrow> float32array"
  num_correct_cam_quat_up :: "float32array \<Rightarrow> bool \<Rightarrow> float32array"
  num_quat_to_angle_axis :: "float32array \<Rightarrow> float32array"
  num_xz_direction :: "jsval list \<Rightarrow> (ref \<Rightarrow> float32array) \<Rightarrow> float32array"
  num_line_plane_intersect :: "jsval list \<Rightarrow> (ref \<Rightarrow> float32array) \<Rightarrow> float32array option"

text \<open>
  Modelled from the spec: the optional destination of the internal module's conversions
  (``every conversion accepts an optional pre-allocated destination; when absent, a fresh
  buffer is allocated and returned''): the destination to write to, allocated with
  \<open>n\<close> components when the caller gave none.
\<close>

definition dest_or_new :: "nat \<Rightarrow> ref option \<Rightarrow> state \<Rightarrow> ref \<times> state" where
  "dest_or_new n dest s = (case dest of None \<Rightarrow> new_Float32Array n s | Some d \<Rightarrow> (d, s))"

text \<open>
  Modelled from the spec: \<open>util.euler_to_quat(euler, quat)\<close> of the internal module:
  it writes the quaternion of the euler triple into the destination and returns the
  destination.
\<close>

definition util_euler_to_quat :: "env \<Rightarrow> ref \<Rightarrow> ref \<Rightarrow> state \<Rightarrow> ref \<times> state" where
  "util_euler_to_quat E euler quat s = (quat, store quat (num_euler_to_quat E (heap s euler)) s)"

text \<open>
  Modelled from the spec: \<open>util.quat_to_euler(quat, euler)\<close> of the internal module:
  it writes the euler triple of the quaternion into the destination and returns the
  destination.
\<close>

definition util_quat_to_euler :: "env \<Rightarrow> ref \<Rightarrow> ref \<Rightarrow> state \<Rightarrow> ref \<times> state" where
  "util_quat_to_euler E quat euler s = (euler, store euler (num_quat_to_euler E (heap s quat)) s)"

text \<open>
  Modelled from the spec: \<open>util.quat_project(quat, quat_ident_dir, plane, plane_ident_dir,
  dest)\<close> of the internal module: a pure numerical transformation of its four arguments,
  written into the optional destination, which it returns. It never logs and its result is
  a quaternion, never the null sentinel.
\<close>

definition util_quat_project ::
  "env \<Rightarrow> ref \<Rightarrow> ref \<Rightarrow> ref \<Rightarrow> ref \<Rightarrow> ref option \<Rightarrow> state \<Rightarrow> ref \<times> state" where
  "util_quat_project E quat quat_ident_dir plane plane_ident_dir dest s =
     (let (d, s1) = dest_or_new 4 dest s
      in (d, store d (num_quat_project E (heap s quat) (heap s quat_ident_dir) (heap s plane)
                        (heap s plane_ident_dir)) s1))"

text \<open>
  Modelled from the spec: \<open>util.matrix_to_quat(matrix)\<close> of the internal module: the
  caller receives a freshly allocated quaternion holding the rotation of the matrix.
\<close>

definition util_matrix_to_quat :: "env \<Rightarrow> ref \<Rightarrow> state \<Rightarrow> ref \<times> state" where
  "util_matrix_to_quat E matrix s =
     (let (d, s1) = new_Float32Array 4 s
      in (d, store d (num_matrix_to_quat E (heap s matrix)) s1))"

text \<open>
  Modelled from the spec: \<open>util.cam_quat_to_mesh_quat(cam_quat, dest)\<close> of the internal
  module: a pure change of basis, written into the optional destination, which it returns.
\<close>

definition util_cam_quat_to_mesh_quat ::
  "env \<Rightarrow> ref \<Rightarrow> ref option \<Rightarrow> state \<Rightarrow> ref \<times> state" where
  "util_cam_quat_to_mesh_quat E cam_quat dest s =
     (let (d, s1) = dest_or_new 4 dest s
      in (d, store d (num_cam_quat_to_mesh_quat E (heap s cam_quat)) s1))"

text \<open>
  Modelled from the spec: \<open>util.quat_to_dir(quat, ident, dest)\<close> of the internal module:
  the identity direction rotated by the quaternion, written into the optional destination
  vector, which it returns.
\<close>

definition util_quat_to_dir :: "env \<Rightarrow> ref \<Rightarrow> ref \<Rightarrow> ref option \<Rightarrow> state \<Rightarrow> ref \<times> state" where
  "util_quat_to_dir E quat ident dest s =
     (let (d, s1) = dest_or_new 3 dest s
      in (d, store d (num_quat_to_dir E (heap s quat) (heap s ident)) s1))"

text \<open>
  Modelled from the spec: \<open>util.smooth_v(curr, last, delta, period, dest)\<close> of the
  internal module: the smoothed vector, written into the optional destination, which it
  returns.
\<close>

definition util_smooth_v ::
  "env \<Rightarrow> ref \<Rightarrow> ref \<Rightarrow> number \<Rightarrow> number \<Rightarrow> ref option \<Rightarrow> state \<Rightarrow> ref \<times> state" where
  "util_smooth_v E curr' last' delta period dest s =
     (let (d, s1) = dest_or_new 3 dest s
      in (d, store d (num_smooth_v E (heap s curr') (heap s last') delta period) s1))"

text \<open>
  Modelled from the spec: \<open>util.correct_cam_quat_up(quat, up_only)\<close> of the internal
  module: it corrects the quaternion in place and returns nothing.
\<close>

definition util_correct_cam_quat_up :: "env \<Rightarrow> ref \<Rightarrow> bool \<Rightarrow> state \<Rightarrow> state" where
  "util_correct_cam_quat_up E quat up_only s =
     store quat (num_correct_cam_quat_up E (heap s quat) up_only) s"

text \<open>
  Modelled from the spec: \<open>util.quat_to_angle_axis(quat, dest)\<close> of the internal
  module: the decomposition of the quaternion into axis and angle, written into the
  optional destination, which it returns.
\<close>

definition util_quat_to_angle_axis :: "env \<Rightarrow> ref \<Rightarrow> ref option \<Rightarrow> state \<Rightarrow> ref \<times> state" where
  "util_quat_to_angle_axis E quat dest s =
     (let (d, s1) = dest_or_new 4 dest s
      in (d, store d (num_quat_to_angle_axis E (heap s quat)) s1))"

text \<open>
  Modelled from the spec: \<open>util.xz_direction(...)\<close> of the internal module, whose
  parameters the spec leaves open: a pure function of its arguments and of the arrays they
  refer to, whose result vector goes by the convention of the optional destination (when
  the function takes none, every call has none).
\<close>

definition util_xz_direction :: "env \<Rightarrow> jsval list \<Rightarrow> ref option \<Rightarrow> state \<Rightarrow> ref \<times> state" where
  "util_xz_direction E args dest s =
     (let (d, s1) = dest_or_new 3 dest s
      in (d, store d (num_xz_direction E args (heap s)) s1))"

text \<open>
  Modelled from the spec: \<open>util.line_plane_intersect(...)\<close> of the internal module,
  whose parameters the spec leaves open (``ray-plane intersection point or failure when
  ray is parallel to plane''): on failure it returns the null sentinel and writes nothing;
  otherwise the point goes by the convention of the optional destination.
\<close>

definition util_line_plane_intersect ::
  "env \<Rightarrow> jsval list \<Rightarrow> ref option \<Rightarrow> state \<Rightarrow> ref option \<times> state" where
  "util_line_plane_intersect E args dest s =
     (case num_line_plane_intersect E args (heap s) of
        None \<Rightarrow> (None, s)
      | Some point \<Rightarrow> (let (d, s1) = dest_or_new 3 dest s in (Some d, store d point s1)))"

text \<open>
  Modelled from the spec: \<open>util.sign\<close> of the internal module
  (``sign classification; exact zero maps to 0''; in the source's words ``-1,0,1 for
  negative, zero or positive number accordingly''). The classification compares with
  zero; NaN, which is neither greater nor less than zero, is classified with zero.
\<close>

definition util_sign :: "number \<Rightarrow> number" where
  "util_sign v = (if 0 < sign_of v then Fin 1 else if sign_of v < 0 then Fin (- 1) else Fin 0)"

text \<open>
  Modelled from the spec: \<open>util.smooth\<close> of the internal module, by the spec's formula
  \<open>last + (curr - last) * (1 - exp(-delta/period))\<close> on finite arguments, in real
  arithmetic (rounding is not modelled). For \<open>period = 0\<close> the quotient
  \<open>delta/period\<close> is no finite number (NaN at \<open>delta = 0\<close>, an infinity
  otherwise) and the model gives \<open>None\<close>.
\<close>

definition util_smooth :: "real \<Rightarrow> real \<Rightarrow> real \<Rightarrow> real \<Rightarrow> real option" where
  "util_smooth curr' last' delta period =
     (if period = 0 then None
      else Some (last' + (curr' - last') * (1 - exp (- delta / period))))"

text \<open>
  Modelled from the spec: \<open>util.angle_wrap_0_2pi\<close> of the internal module
  (``reduces an angle into [0, 2\<pi>)''), in real arithmetic: the whole turns are
  taken off the angle.
\<close>

definition util_angle_wrap_0_2pi :: "real \<Rightarrow> real" where
  "util_angle_wrap_0_2pi angle = angle - 2 * pi * of_int \<lfloor>angle / (2 * pi)\<rfloor>"

section \<open>The module \<open>util\<close>\<close>

text \<open>
  \<open>exports.quat_project\<close>: the guard on the dot product, the error message and the
  null sentinel (\<open>None\<close>), then the call of the internal projection.
\<close>

definition quat_project ::
  "env \<Rightarrow> ref \<Rightarrow> ref \<Rightarrow> ref \<Rightarrow> ref \<Rightarrow> ref option \<Rightarrow> state \<Rightarrow> ref option \<times> state" where
  "quat_project E quat quat_ident_dir plane plane_ident_dir dest s =
     (if js_neq (vec3_dot (rnd E) (heap s plane) (heap s plane_ident_dir)) (Fin 0)
      then (None, print_error ''Wrong in-plane direction'' s)
      else (let (r, s1) = util_quat_project E quat quat_ident_dir plane plane_ident_dir dest s
            in (Some r, s1)))"

text \<open>\<open>exports.ground_project_quat\<close>: the internal projection, called on the internal
  module's own axis constants.\<close>

definition ground_project_quat :: "env \<Rightarrow> ref \<Rightarrow> ref option \<Rightarrow> state \<Rightarrow> ref option \<times> state" where
  "ground_project_quat E quat dest s =
     (let (r, s1) = util_quat_project E quat (util_AXIS_MY E) (util_AXIS_Y E) (util_AXIS_MZ E) dest s
      in (Some r, s1))"

text \<open>\<open>exports.matrix_to_quat\<close>.\<close>

definition matrix_to_quat :: "env \<Rightarrow> ref \<Rightarrow> state \<Rightarrow> ref \<times> state" where
  "matrix_to_quat E matrix s = util_matrix_to_quat E matrix s"

text \<open>\<open>exports.euler_to_quat\<close>: \<open>if (!quat) quat = new Float32Array(4)\<close>, then the
  internal conversion.\<close>

definition euler_to_quat :: "env \<Rightarrow> ref \<Rightarrow> ref option \<Rightarrow> state \<Rightarrow> ref \<times> state" where
  "euler_to_quat E euler quat s =
     (case quat of
        None \<Rightarrow> (let (q, s1) = new_Float32Array 4 s in util_euler_to_quat E euler q s1)
      | Some q \<Rightarrow> util_euler_to_quat E euler q s)"

text \<open>\<open>exports.quat_to_euler\<close>: \<open>if (!euler) euler = new Float32Array(3)\<close>, then the
  internal conversion.\<close>

definition quat_to_euler :: "env \<Rightarrow> ref \<Rightarrow> ref option \<Rightarrow> state \<Rightarrow> ref \<times> state" where
  "quat_to_euler E quat euler s =
     (case euler of
        None \<Rightarrow> (let (e, s1) = new_Float32Array 3 s in util_quat_to_euler E quat e s1)
      | Some e \<Rightarrow> util_quat_to_euler E quat e s)"

text \<open>\<open>exports.cam_quat_to_mesh_quat\<close>.\<close>

definition cam_quat_to_mesh_quat :: "env \<Rightarrow> ref \<Rightarrow> ref option \<Rightarrow> state \<Rightarrow> ref \<times> state" where
  "cam_quat_to_mesh_quat E cam_quat dest s = util_cam_quat_to_mesh_quat E cam_quat dest s"

text \<open>The functions the module exports as they are: \<open>exports.f = util.f\<close>.\<close>

definition quat_to_dir :: "env \<Rightarrow> ref \<Rightarrow> ref \<Rightarrow> ref option \<Rightarrow> state \<Rightarrow> ref \<times> state" where
  "quat_to_dir = util_quat_to_dir"

definition smooth_v ::
  "env \<Rightarrow> ref \<Rightarrow> ref \<Rightarrow> number \<Rightarrow> number \<Rightarrow> ref option \<Rightarrow> state \<Rightarrow> ref \<times> state" where
  "smooth_v = util_smooth_v"

definition correct_cam_quat_up :: "env \<Rightarrow> ref \<Rightarrow> bool \<Rightarrow> state \<Rightarrow> state" where
  "correct_cam_quat_up = util_correct_cam_quat_up"

definition quat_to_angle_axis :: "env \<Rightarrow> ref \<Rightarrow> ref option \<Rightarrow> state \<Rightarrow> ref \<times> state" where
  "quat_to_angle_axis = util_quat_to_angle_axis"

definition xz_direction :: "env \<Rightarrow> jsval list \<Rightarrow> ref option \<Rightarrow> state \<Rightarrow> ref \<times> state" where
  "xz_direction = util_xz_direction"

definition line_plane_intersect ::
  "env \<Rightarrow> jsval list \<Rightarrow> ref option \<Rightarrow> state \<Rightarrow> ref option \<times> state" where
  "line_plane_intersect = util_line_plane_intersect"

definition sign :: "number \<Rightarrow> number" where
  "sign = util_sign"

definition smooth :: "real \<Rightarrow> real \<Rightarrow> real \<Rightarrow> real \<Rightarrow> real option" where
  "smooth = util_smooth"

definition angle_wrap_0_2pi :: "real \<Rightarrow> real" where
  "angle_wrap_0_2pi = util_angle_wrap_0_2pi"

subsection \<open>The axis constants\<close>

text \<open>The values of the six constants, as the module writes them.\<close>

definition AXIS_X_val :: float32array where "AXIS_X_val = [Fin 1, Fin 0, Fin 0]"
definition AXIS_Y_val :: float32array where "AXIS_Y_val = [Fin 0, Fin 1, Fin 0]"
definition AXIS_Z_val :: float32array where "AXIS_Z_val = [Fin 0, Fin 0, Fin 1]"
definition AXIS_MX_val :: float32array where "AXIS_MX_val = [Fin (- 1), Fin 0, Fin 0]"
definition AXIS_MY_val :: float32array where "AXIS_MY_val = [Fin 0, Fin (- 1), Fin 0]"
definition AXIS_MZ_val :: float32array where "AXIS_MZ_val = [Fin 0, Fin 0, Fin (- 1)]"

text \<open>The exported references, in the order of the source.\<close>

record exports =
  AXIS_X :: ref
  AXIS_Y :: ref
  AXIS_Z :: ref
  AXIS_MX :: ref
  AXIS_MY :: ref
  AXIS_MZ :: ref

text \<open>Loading the module allocates the six arrays.\<close>

definition module_init :: "state \<Rightarrow> exports \<times> state" where
  "module_init s0 =
     (let (x, s1) = new_Float32Array_of AXIS_X_val s0;
          (y, s2) = new_Float32Array_of AXIS_Y_val s1;
          (z, s3) = new_Float32Array_of AXIS_Z_val s2;
          (mx, s4) = new_Float32Array_of AXIS_MX_val s3;
          (my, s5) = new_Float32Array_of AXIS_MY_val s4;
          (mz, s6) = new_Float32Array_of AXIS_MZ_val s5
      in (\<lparr>AXIS_X = x, AXIS_Y = y, AXIS_Z = z, AXIS_MX = mx, AXIS_MY = my, AXIS_MZ = mz\<rparr>, s6))"

definition axis_refs :: "exports \<Rightarrow> ref set" where
  "axis_refs ex = {AXIS_X ex, AXIS_Y ex, AXIS_Z ex, AXIS_MX ex, AXIS_MY ex, AXIS_MZ ex}"

text \<open>The six constants hold their values in a state.\<close>

definition axes_hold :: "exports \<Rightarrow> state \<Rightarrow> bool" where
  "axes_hold ex s =
     (heap s (AXIS_X ex) = AXIS_X_val \<and> heap s (AXIS_Y ex) = AXIS_Y_val \<and>
      heap s (AXIS_Z ex) = AXIS_Z_val \<and> heap s (AXIS_MX ex) = AXIS_MX_val \<and>
      heap s (AXIS_MY ex) = AXIS_MY_val \<and> heap s (AXIS_MZ ex) = AXIS_MZ_val)"

text \<open>The internal module's own constants, which \<open>ground_project_quat\<close> reads, hold
  the values \<open>-Y\<close>, \<open>+Y\<close>, \<open>-Z\<close> that the spec gives them.\<close>

definition util_axes_hold :: "env \<Rightarrow> state \<Rightarrow> bool" where
  "util_axes_hold E s =
     (heap s (util_AXIS_MY E) = AXIS_MY_val \<and> heap s (util_AXIS_Y E) = AXIS_Y_val \<and>
      heap s (util_AXIS_MZ E) = AXIS_MZ_val)"

subsection \<open>Sequences of calls\<close>

text \<open>
  A call of one of the module's operations, with its arguments: one constructor for each
  of the 25 functions the module exports, in the order of the source.
\<close>

datatype call =
    Keyfind jsval jsval
  | Keysearch jsval jsval
  | Matrix_to_quat ref
  | Euler_to_quat ref "ref option"
  | Quat_to_euler ref "ref option"
  | Sign number
  | Clamp number number number
  | Quat_to_dir ref ref "ref option"
  | Ground_project_quat ref "ref option"
  | Cam_quat_to_mesh_quat ref "ref option"
  | Quat_project ref ref ref ref "ref option"
  | Hash_code jsval
  | Smooth number number number number
  | Smooth_v ref ref number number "ref option"
  | Is_vector jsval jsval
  | Correct_cam_quat_up ref bool
  | Quat_to_angle_axis ref "ref option"
  | Random_from_array jsval
  | Xz_direction "jsval list" "ref option"
  | Line_plane_intersect "jsval list" "ref option"
  | Is_mesh jsval
  | Is_armature jsval
  | Angle_wrap_0_2pi number
  | Angle_wrap_periodic number number number
  | Smooth_step "jsval list"

text \<open>
  The state after a call. Modelled from the spec: the scalar functions, the predicates
  and the lookups of the internal module (\<open>keyfind\<close>, \<open>keysearch\<close>, \<open>sign\<close>,
  \<open>clamp\<close>, \<open>hash_code\<close>, \<open>smooth\<close>, \<open>is_vector\<close>, \<open>random_from_array\<close>,
  \<open>is_mesh\<close>, \<open>is_armature\<close>, \<open>angle_wrap_0_2pi\<close>, \<open>angle_wrap_periodic\<close>,
  \<open>smooth_step\<close>) are pure functions with no side effects: a call of one of them returns
  its value and leaves the state as it is.
\<close>

fun exec :: "env \<Rightarrow> call \<Rightarrow> state \<Rightarrow> state" where
  "exec E (Keyfind k ps) s = s"
| "exec E (Keysearch k ps) s = s"
| "exec E (Matrix_to_quat m) s = snd (matrix_to_quat E m s)"
| "exec E (Euler_to_quat e q) s = snd (euler_to_quat E e q s)"
| "exec E (Quat_to_euler q e) s = snd (quat_to_euler E q e s)"
| "exec E (Sign v) s = s"
| "exec E (Clamp v lo hi) s = s"
| "exec E (Quat_to_dir q i d) s = snd (quat_to_dir E q i d s)"
| "exec E (Ground_project_quat q d) s = snd (ground_project_quat E q d s)"
| "exec E (Cam_quat_to_mesh_quat q d) s = snd (cam_quat_to_mesh_quat E q d s)"
| "exec E (Quat_project q qi p pd d) s = snd (quat_project E q qi p pd d s)"
| "exec E (Hash_code v) s = s"
| "exec E (Smooth c l dt p) s = s"
| "exec E (Smooth_v c l dt p d) s = snd (smooth_v E c l dt p d s)"
| "exec E (Is_vector v n) s = s"
| "exec E (Correct_cam_quat_up q u) s = correct_cam_quat_up E q u s"
| "exec E (Quat_to_angle_axis q d) s = snd (quat_to_angle_axis E q d s)"
| "exec E (Random_from_array v) s = s"
| "exec E (Xz_direction args d) s = snd (xz_direction E args d s)"
| "exec E (Line_plane_intersect args d) s = snd (line_plane_intersect E args d s)"
| "exec E (Is_mesh v) s = s"
| "exec E (Is_armature v) s = s"
| "exec E (Angle_wrap_0_2pi v) s = s"
| "exec E (Angle_wrap_periodic v lo hi) s = s"
| "exec E (Smooth_step args) s = s"

definition run :: "env \<Rightarrow> call list \<Rightarrow> state \<Rightarrow> state" where
  "run E calls s = fold (exec E) calls s"

text \<open>The array a call is given to write to: its destination, or the quaternion it
  corrects in place.\<close>

fun destination :: "call \<Rightarrow> ref option" where
  "destination (Euler_to_quat e q) = q"
| "destination (Quat_to_euler q e) = e"
| "destination (Quat_to_dir q i d) = d"
| "destination (Ground_project_quat q d) = d"
| "destination (Cam_quat_to_mesh_quat q d) = d"
| "destination (Quat_project q qi p pd d) = d"
| "destination (Smooth_v c l dt p d) = d"
| "destination (Correct_cam_quat_up q u) = Some q"
| "destination (Quat_to_angle_axis q d) = d"
| "destination (Xz_direction args d) = d"
| "destination (Line_plane_intersect args d) = d"
| "destination c = None"

text \<open>
  The components a call writes as its result, in a state: none for a pure function, for
  \<open>quat_project\<close> when its guard fails and for \<open>line_plane_intersect\<close> when it
  fails.
\<close>

fun written :: "env \<Rightarrow> call \<Rightarrow> state \<Rightarrow> float32array option" where
  "written E (Matrix_to_quat m) s = Some (num_matrix_to_quat E (heap s m))"
| "written E (Euler_to_quat e q) s = Some (num_euler_to_quat E (heap s e))"
| "written E (Quat_to_euler q e) s = Some (num_quat_to_euler E (heap s q))"
| "written E (Quat_to_dir q i d) s = Some (num_quat_to_dir E (heap s q) (heap s i))"
| "written E (Ground_project_quat q d) s =
     Some (num_quat_project E (heap s q) (heap s (util_AXIS_MY E)) (heap s (util_AXIS_Y E))
             (heap s (util_AXIS_MZ E)))"
| "written E (Cam_quat_to_mesh_quat q d) s = Some (num_cam_quat_to_mesh_quat E (heap s q))"
| "written E (Quat_project q qi p pd d) s =
     (if js_neq (vec3_dot (rnd E) (heap s p) (heap s pd)) (Fin 0) then None
      else Some (num_quat_project E (heap s q) (heap s qi) (heap s p) (heap s pd)))"
| "written E (Smooth_v c l dt p d) s = Some (num_smooth_v E (heap s c) (heap s l) dt p)"
| "written E (Correct_cam_quat_up q u) s = Some (num_correct_cam_quat_up E (heap s q) u)"
| "written E (Quat_to_angle_axis q d) s = Some (num_quat_to_angle_axis E (heap s q))"
| "written E (Xz_direction args d) s = Some (num_xz_direction E args (heap s))"
| "written E (Line_plane_intersect args d) s = num_line_plane_intersect E args (heap s)"
| "written E c s = None"

text \<open>
  A call overwrites the array \<open>r\<close>: \<open>r\<close> is its destination and the result it
  writes there differs from the contents of \<open>r\<close>.
\<close>

definition overwrites :: "env \<Rightarrow> call \<Rightarrow> state \<Rightarrow> ref \<Rightarrow> bool" where
  "overwrites E c s r =
     (destination c = Some r \<and>
      (case written E c s of None \<Rightarrow> False | Some vs \<Rightarrow> assign (heap s r) vs \<noteq> heap s r))"

text \<open>Some call of a sequence, started in a state, overwrites \<open>r\<close>.\<close>

fun overwritten :: "env \<Rightarrow> ref \<Rightarrow> call list \<Rightarrow> state \<Rightarrow> bool" where
  "overwritten E r [] s = False"
| "overwritten E r (c # calls) s = (overwrites E c s r \<or> overwritten E r calls (exec E c s))"

text \<open>The array \<open>r\<close> holds the contents it has in the starting state after every
  call of a sequence.\<close>

fun remains :: "env \<Rightarrow> ref \<Rightarrow> call list \<Rightarrow> state \<Rightarrow> bool" where
  "remains E r [] s = True"
| "remains E r (c # calls) s =
     (heap (exec E c s) r = heap s r \<and> remains E r calls (exec E c s))"

subsection \<open>Concrete inputs\<close>

text \<open>
  An environment to run the model on concrete inputs. Its arithmetic is exact and its
  kernels answer as the conversions do at the identity rotation: the identity quaternion
  \<open>(0, 0, 0, 1)\<close>, the zero euler triple, the identity direction, the last smoothed
  value unchanged and the zero angle about the x axis; its \<open>xz_direction\<close> is that of
  a vertical direction (the zero vector) and its \<open>line_plane_intersect\<close> that of a
  line parallel to the plane (failure). The internal module's constants are the first
  three arrays.
\<close>

definition identity_quat :: float32array where
  "identity_quat = [Fin 0, Fin 0, Fin 0, Fin 1]"

definition zero_euler :: float32array where
  "zero_euler = [Fin 0, Fin 0, Fin 0]"

definition rest_env :: env where
  "rest_env =
     \<lparr>rnd = Fin, util_AXIS_Y = 0, util_AXIS_MY = 1, util_AXIS_MZ = 2,
      num_matrix_to_quat = (\<lambda>m. identity_quat),
      num_euler_to_quat = (\<lambda>e. identity_quat),
      num_quat_to_euler = (\<lambda>q. zero_euler),
      num_quat_to_dir = (\<lambda>q i. i),
      num_quat_project = (\<lambda>q qi p pd. identity_quat),
      num_cam_quat_to_mesh_quat = (\<lambda>q. identity_quat),
      num_smooth_v = (\<lambda>c l dt p. l),
      num_correct_cam_quat_up = (\<lambda>q u. q),
      num_quat_to_angle_axis = (\<lambda>q. [Fin 1, Fin 0, Fin 0, Fin 0]),
      num_xz_direction = (\<lambda>args h. [Fin 0, Fin 0, Fin 0]),
      num_line_plane_intersect = (\<lambda>args h. None)\<rparr>"

text \<open>The state after the internal module has allocated its three constants and a
  caller an identity quaternion and a zero euler triple.\<close>

definition rest_state :: state where
  "rest_state =
     \<lparr>heap = (\<lambda>r. [])(0 := AXIS_Y_val, 1 := AXIS_MY_val, 2 := AXIS_MZ_val,
        3 := identity_quat, 4 := zero_euler),
      next_ref = 5, error_log = []\<rparr>"

section \<open>Basic facts\<close>

lemma js_neq_zero: "js_neq x (Fin 0) \<longleftrightarrow> x \<noteq> Fin 0"
  by (auto simp: js_neq_def)

lemma dot_Y_MZ: "vec3_dot r AXIS_Y_val AXIS_MZ_val = Fin 0"
  by (simp add: vec3_dot_def AXIS_Y_val_def AXIS_MZ_val_def elem_def fl_def)

lemma dot_Y_Y: "vec3_dot Fin AXIS_Y_val AXIS_Y_val = Fin 1"
  by (simp add: vec3_dot_def AXIS_Y_val_def elem_def fl_def)

lemma length_assign [simp]: "length (assign old vs) = length old"
  by (simp add: assign_def)

lemma assign_same [simp]: "assign xs xs = xs"
  by (simp add: assign_def)

lemma heap_store: "heap (store d vs s) r = (if r = d then assign (heap s d) vs else heap s r)"
  by (simp add: store_def)

lemma next_ref_store [simp]: "next_ref (store d vs s) = next_ref s"
  by (simp add: store_def)

lemma error_log_store [simp]: "error_log (store d vs s) = error_log s"
  by (simp add: store_def)

lemma rest_state_simps [simp]:
  "heap rest_state 0 = AXIS_Y_val" "heap rest_state (Suc 0) = AXIS_MY_val"
  "heap rest_state 2 = AXIS_MZ_val" "heap rest_state 3 = identity_quat"
  "heap rest_state 4 = zero_euler"
  "next_ref rest_state = 5" "error_log rest_state = []"
  by (simp_all add: rest_state_def)

lemma rest_env_simps [simp]:
  "rnd rest_env = Fin" "util_AXIS_Y rest_env = 0" "util_AXIS_MY rest_env = 1"
  "util_AXIS_MZ rest_env = 2"
  "num_quat_project rest_env = (\<lambda>q qi p pd. identity_quat)"
  "num_euler_to_quat rest_env = (\<lambda>e. identity_quat)"
  "num_quat_to_euler rest_env = (\<lambda>q. zero_euler)"
  "num_correct_cam_quat_up rest_env = (\<lambda>q u. q)"
  "num_quat_to_dir rest_env = (\<lambda>q i. i)"
  "num_xz_direction rest_env = (\<lambda>args h. [Fin 0, Fin 0, Fin 0])"
  "num_line_plane_intersect rest_env = (\<lambda>args h. None)"
  by (simp_all add: rest_env_def)

section \<open>The guard of \<open>quat_project\<close>\<close>

text \<open>
  Claim C1: \<open>quat_project\<close> returns the null sentinel exactly when the dot product of
  \<open>plane\<close> and \<open>plane_ident_dir\<close> is not exactly zero; it then logs the message
  ``Wrong in-plane direction''; when the dot product is exactly zero it returns what the
  internal projection returns.
\<close>

theorem quat_project_guard:
  "(fst (quat_project E quat quat_ident_dir plane plane_ident_dir dest s) = None
      \<longleftrightarrow> vec3_dot (rnd E) (heap s plane) (heap s plane_ident_dir) \<noteq> Fin 0)
   \<and> (vec3_dot (rnd E) (heap s plane) (heap s plane_ident_dir) \<noteq> Fin 0 \<longrightarrow>
        quat_project E quat quat_ident_dir plane plane_ident_dir dest s
          = (None, print_error ''Wrong in-plane direction'' s)
        \<and> error_log (snd (quat_project E quat quat_ident_dir plane plane_ident_dir dest s))
          = error_log s @ [''Wrong in-plane direction''])
   \<and> (vec3_dot (rnd E) (heap s plane) (heap s plane_ident_dir) = Fin 0 \<longrightarrow>
        quat_project E quat quat_ident_dir plane plane_ident_dir dest s
          = (Some (fst (util_quat_project E quat quat_ident_dir plane plane_ident_dir dest s)),
             snd (util_quat_project E quat quat_ident_dir plane plane_ident_dir dest s)))"
  by (simp add: quat_project_def js_neq_zero print_error_def split: prod.split)

theorem quat_project_guard_witness:
  "vec3_dot (rnd rest_env) (heap rest_state 0) (heap rest_state 0) \<noteq> Fin 0
   \<and> fst (quat_project rest_env 3 1 0 0 None rest_state) = None
   \<and> error_log (snd (quat_project rest_env 3 1 0 0 None rest_state)) = [''Wrong in-plane direction'']
   \<and> vec3_dot (rnd rest_env) (heap rest_state 0) (heap rest_state 2) = Fin 0
   \<and> fst (quat_project rest_env 3 1 0 2 None rest_state) = Some 5"
  using quat_project_guard [of rest_env 3 1 0 0 None rest_state]
    quat_project_guard [of rest_env 3 1 0 2 None rest_state]
  by (simp add: dot_Y_MZ dot_Y_Y util_quat_project_def dest_or_new_def new_Float32Array_def
      print_error_def)

text \<open>
  Claim C5: when the dot product is not zero, \<open>quat_project\<close> does not call the internal
  projection (its result does not depend on it), allocates nothing and leaves every array
  of the store, the supplied destination among them, as it was.
\<close>

theorem quat_project_violation_writes_nothing:
  assumes "vec3_dot (rnd E) (heap s plane) (heap s plane_ident_dir) \<noteq> Fin 0"
  shows "heap (snd (quat_project E quat quat_ident_dir plane plane_ident_dir dest s)) = heap s
    \<and> next_ref (snd (quat_project E quat quat_ident_dir plane plane_ident_dir dest s)) = next_ref s
    \<and> quat_project (E\<lparr>num_quat_project := k\<rparr>) quat quat_ident_dir plane plane_ident_dir dest s
        = quat_project E quat quat_ident_dir plane plane_ident_dir dest s"
  using assms by (simp add: quat_project_def js_neq_zero print_error_def)

theorem quat_project_violation_writes_nothing_witness:
  "vec3_dot (rnd rest_env) (heap rest_state 0) (heap rest_state 0) \<noteq> Fin 0
   \<and> heap (snd (quat_project rest_env 3 1 0 0 (Some 3) rest_state)) = heap rest_state
   \<and> heap (snd (quat_project rest_env 3 1 0 0 (Some 3) rest_state)) 3 = identity_quat"
  using quat_project_violation_writes_nothing [of rest_env rest_state 0 0 3 1 "Some 3"]
  by (simp add: dot_Y_Y)

section \<open>\<open>ground_project_quat\<close>\<close>

text \<open>
  Claim C2: \<open>ground_project_quat(quat, dest)\<close> computes what \<open>quat_project\<close> computes
  on \<open>quat\<close>, the directions \<open>-Y\<close>, \<open>+Y\<close>, \<open>-Z\<close> and \<open>dest\<close>, in every state in
  which the internal module's constants hold their values; the three directions may be
  the internal module's constants or any other arrays with these contents.
\<close>

theorem ground_project_quat_is_quat_project:
  assumes "util_axes_hold E s"
    and "heap s my = AXIS_MY_val" and "heap s y = AXIS_Y_val" and "heap s mz = AXIS_MZ_val"
  shows "ground_project_quat E quat dest s = quat_project E quat my y mz dest s"
  using assms
  by (simp add: ground_project_quat_def quat_project_def util_quat_project_def
      util_axes_hold_def js_neq_zero dot_Y_MZ)

theorem ground_project_quat_is_quat_project_witness:
  "util_axes_hold rest_env rest_state
   \<and> ground_project_quat rest_env 3 None rest_state = quat_project rest_env 3 1 0 2 None rest_state
   \<and> fst (ground_project_quat rest_env 3 None rest_state) = Some 5"
  using ground_project_quat_is_quat_project [of rest_env rest_state 1 0 2 3 None]
  by (simp add: util_axes_hold_def ground_project_quat_def util_quat_project_def dest_or_new_def
      new_Float32Array_def quat_project_def js_neq_zero dot_Y_MZ)

text \<open>
  Claim C3: \<open>ground_project_quat\<close> never returns the null sentinel and never logs: it
  is the internal projection, called without the guard, and the dot product of its fixed
  arguments \<open>+Y\<close> and \<open>-Z\<close> is zero.
\<close>

theorem ground_project_quat_never_fails:
  "fst (ground_project_quat E quat dest s) \<noteq> None
   \<and> error_log (snd (ground_project_quat E quat dest s)) = error_log s
   \<and> ground_project_quat E quat dest s
       = (Some (fst (util_quat_project E quat (util_AXIS_MY E) (util_AXIS_Y E) (util_AXIS_MZ E) dest s)),
          snd (util_quat_project E quat (util_AXIS_MY E) (util_AXIS_Y E) (util_AXIS_MZ E) dest s))
   \<and> vec3_dot (rnd E) AXIS_Y_val AXIS_MZ_val = Fin 0"
  by (cases dest)
    (simp_all add: ground_project_quat_def util_quat_project_def dest_or_new_def
      new_Float32Array_def store_def dot_Y_MZ)

section \<open>Destinations of the conversions\<close>

text \<open>
  Claim C4: without a destination, \<open>euler_to_quat\<close> returns a fresh array of 4
  components and \<open>quat_to_euler\<close> a fresh array of 3 components (the reference is the
  first one not allocated before, and no other array changes); with a destination,
  nothing is allocated, the destination is returned and the result is written into it.
\<close>

theorem conversions_destination:
  "(case euler_to_quat E euler None s of (r, s') \<Rightarrow>
       r = next_ref s \<and> next_ref s' = Suc (next_ref s) \<and> length (heap s' r) = 4
       \<and> heap s' = (heap s)(r := heap s' r))
   \<and> (case quat_to_euler E quat None s of (r, s') \<Rightarrow>
       r = next_ref s \<and> next_ref s' = Suc (next_ref s) \<and> length (heap s' r) = 3
       \<and> heap s' = (heap s)(r := heap s' r))
   \<and> (case euler_to_quat E euler (Some q) s of (r, s') \<Rightarrow>
       r = q \<and> next_ref s' = next_ref s
       \<and> heap s' = (heap s)(q := assign (heap s q) (num_euler_to_quat E (heap s euler))))
   \<and> (case quat_to_euler E quat (Some e) s of (r, s') \<Rightarrow>
       r = e \<and> next_ref s' = next_ref s
       \<and> heap s' = (heap s)(e := assign (heap s e) (num_quat_to_euler E (heap s quat))))"
  by (simp add: euler_to_quat_def quat_to_euler_def util_euler_to_quat_def util_quat_to_euler_def
      new_Float32Array_def store_def)

section \<open>The axis constants\<close>

lemma dest_or_new_next_ref:
  "dest_or_new n dest s = (d, s1) \<Longrightarrow> next_ref s \<le> next_ref s1"
  by (cases dest) (auto simp: dest_or_new_def new_Float32Array_def)

lemma dest_or_new_store:
  assumes "r < next_ref s"
  shows "heap (snd (case dest_or_new n dest s of (d, s1) \<Rightarrow> (f d, store d vs s1))) r
    = (if dest = Some r then assign (heap s r) vs else heap s r)"
  using assms by (cases dest) (simp_all add: dest_or_new_def new_Float32Array_def heap_store)

lemma exec_effect:
  assumes "r < next_ref s"
  shows "heap (exec E c s) r =
    (if destination c = Some r
     then (case written E c s of None \<Rightarrow> heap s r | Some vs \<Rightarrow> assign (heap s r) vs)
     else heap s r)"
proof (cases c)
  case (Matrix_to_quat m)
  with assms show ?thesis
    by (simp add: matrix_to_quat_def util_matrix_to_quat_def new_Float32Array_def heap_store)
next
  case (Euler_to_quat e q)
  with assms show ?thesis
    by (cases q)
      (simp_all add: euler_to_quat_def util_euler_to_quat_def new_Float32Array_def heap_store)
next
  case (Quat_to_euler q e)
  with assms show ?thesis
    by (cases e)
      (simp_all add: quat_to_euler_def util_quat_to_euler_def new_Float32Array_def heap_store)
next
  case (Quat_to_dir q i d)
  with assms show ?thesis
    by (simp add: quat_to_dir_def util_quat_to_dir_def dest_or_new_store)
next
  case (Ground_project_quat q d)
  with assms show ?thesis
    by (cases d)
      (simp_all add: ground_project_quat_def util_quat_project_def dest_or_new_def
        new_Float32Array_def heap_store)
next
  case (Cam_quat_to_mesh_quat q d)
  with assms show ?thesis
    by (simp add: cam_quat_to_mesh_quat_def util_cam_quat_to_mesh_quat_def dest_or_new_store)
next
  case (Quat_project q qi p pd d)
  with assms show ?thesis
    by (cases d)
      (simp_all add: quat_project_def util_quat_project_def print_error_def dest_or_new_def
        new_Float32Array_def heap_store)
next
  case (Smooth_v cu la dt p d)
  with assms show ?thesis
    by (simp add: smooth_v_def util_smooth_v_def dest_or_new_store)
next
  case (Correct_cam_quat_up q u)
  with assms show ?thesis
    by (simp add: correct_cam_quat_up_def util_correct_cam_quat_up_def heap_store)
next
  case (Quat_to_angle_axis q d)
  with assms show ?thesis
    by (simp add: quat_to_angle_axis_def util_quat_to_angle_axis_def dest_or_new_store)
next
  case (Xz_direction args d)
  with assms show ?thesis
    by (simp add: xz_direction_def util_xz_direction_def dest_or_new_store)
next
  case (Line_plane_intersect args d)
  with assms show ?thesis
    by (cases d)
      (simp_all add: line_plane_intersect_def util_line_plane_intersect_def dest_or_new_def
        new_Float32Array_def heap_store split: option.split)
qed simp_all

lemma exec_changes_iff:
  assumes "r < next_ref s"
  shows "heap (exec E c s) r \<noteq> heap s r \<longleftrightarrow> overwrites E c s r"
  using assms by (simp add: exec_effect overwrites_def split: option.split)

lemma exec_next_ref: "next_ref s \<le> next_ref (exec E c s)"
proof (cases c)
  case (Euler_to_quat e q)
  then show ?thesis
    by (cases q) (simp_all add: euler_to_quat_def util_euler_to_quat_def new_Float32Array_def)
next
  case (Quat_to_euler q e)
  then show ?thesis
    by (cases e) (simp_all add: quat_to_euler_def util_quat_to_euler_def new_Float32Array_def)
qed (auto simp: matrix_to_quat_def util_matrix_to_quat_def new_Float32Array_def
    quat_to_dir_def util_quat_to_dir_def ground_project_quat_def util_quat_project_def
    cam_quat_to_mesh_quat_def util_cam_quat_to_mesh_quat_def quat_project_def print_error_def
    smooth_v_def util_smooth_v_def correct_cam_quat_up_def util_correct_cam_quat_up_def
    quat_to_angle_axis_def util_quat_to_angle_axis_def xz_direction_def util_xz_direction_def
    line_plane_intersect_def util_line_plane_intersect_def
    split: prod.split option.split dest: dest_or_new_next_ref)

lemma remains_iff:
  assumes "r < next_ref s"
  shows "remains E r calls s \<longleftrightarrow> \<not> overwritten E r calls s"
  using assms
proof (induction calls arbitrary: s)
  case Nil
  then show ?case by simp
next
  case (Cons c calls)
  have "r < next_ref (exec E c s)"
    using Cons.prems exec_next_ref [of s E c] by linarith
  then have "remains E r calls (exec E c s) \<longleftrightarrow> \<not> overwritten E r calls (exec E c s)"
    by (rule Cons.IH)
  then show ?case
    using exec_changes_iff [OF Cons.prems, of E c] by auto
qed

lemma remains_run: "remains E r calls s \<Longrightarrow> heap (run E calls s) r = heap s r"
  by (induction calls arbitrary: s) (simp_all add: run_def)

lemma not_destination_not_overwritten:
  "\<forall>c \<in> set calls. destination c \<noteq> Some r \<Longrightarrow> \<not> overwritten E r calls s"
  by (induction calls arbitrary: s) (simp_all add: overwrites_def)

lemma module_init_result:
  "module_init s0 =
     (\<lparr>AXIS_X = next_ref s0, AXIS_Y = next_ref s0 + 1, AXIS_Z = next_ref s0 + 2,
       AXIS_MX = next_ref s0 + 3, AXIS_MY = next_ref s0 + 4, AXIS_MZ = next_ref s0 + 5\<rparr>,
      s0\<lparr>heap := (heap s0)(next_ref s0 := AXIS_X_val, next_ref s0 + 1 := AXIS_Y_val,
             next_ref s0 + 2 := AXIS_Z_val, next_ref s0 + 3 := AXIS_MX_val,
             next_ref s0 + 4 := AXIS_MY_val, next_ref s0 + 5 := AXIS_MZ_val),
          next_ref := next_ref s0 + 6\<rparr>)"
  by (simp add: module_init_def new_Float32Array_of_def eval_nat_numeral)

lemma module_init_axes:
  assumes "module_init s0 = (ex, s)"
  shows "axes_hold ex s" and "\<forall>r \<in> axis_refs ex. r < next_ref s"
  using assms by (auto simp: module_init_result axes_hold_def axis_refs_def)

lemma axes_hold_cong:
  assumes "axes_hold ex s" and "\<forall>r \<in> axis_refs ex. heap s' r = heap s r"
  shows "axes_hold ex s'"
  using assms by (simp add: axes_hold_def axis_refs_def)

text \<open>
  Claim C8, as amended: loading the module creates the six axis constants with exactly
  the stated values. A constant holds its value after every call of a sequence of calls
  of the module's operations exactly when no call of the sequence overwrites it, that is,
  has the constant as its destination (or as the quaternion corrected in place) and
  writes there a result that differs from the constant's contents. So a constant that no
  call overwrites, and in particular one that no call has as its destination, holds its
  value after the sequence, and all six do when none is overwritten.
\<close>

theorem axis_constants_preserved:
  assumes "module_init s0 = (ex, s)"
  shows "axes_hold ex s
    \<and> (\<forall>r \<in> axis_refs ex. remains E r calls s \<longleftrightarrow> \<not> overwritten E r calls s)
    \<and> (\<forall>r \<in> axis_refs ex. \<not> overwritten E r calls s \<longrightarrow> heap (run E calls s) r = heap s r)
    \<and> ((\<forall>r \<in> axis_refs ex. \<not> overwritten E r calls s) \<longrightarrow> axes_hold ex (run E calls s))
    \<and> (\<forall>r \<in> axis_refs ex.
          (\<forall>c \<in> set calls. destination c \<noteq> Some r) \<longrightarrow> \<not> overwritten E r calls s)"
proof -
  have h: "axes_hold ex s" and a: "\<forall>r \<in> axis_refs ex. r < next_ref s"
    using module_init_axes [OF assms] by simp_all
  have i: "\<forall>r \<in> axis_refs ex. remains E r calls s \<longleftrightarrow> \<not> overwritten E r calls s"
    using a by (simp add: remains_iff)
  have k: "\<forall>r \<in> axis_refs ex. \<not> overwritten E r calls s \<longrightarrow> heap (run E calls s) r = heap s r"
    using i by (auto dest: remains_run)
  have "(\<forall>r \<in> axis_refs ex. \<not> overwritten E r calls s) \<longrightarrow> axes_hold ex (run E calls s)"
    using h k by (auto intro: axes_hold_cong)
  with h i k show ?thesis
    by (simp add: not_destination_not_overwritten)
qed

theorem axis_constants_preserved_witness:
  "axes_hold (fst (module_init rest_state))
     (run rest_env
        [Quat_project 3 1 0 0 (Some 5), Quat_to_dir 3 5 (Some 5), Euler_to_quat 4 None,
         Xz_direction [Typed_array 3] (Some 4), Line_plane_intersect [] (Some 6),
         Sign (Fin 5)]
        (snd (module_init rest_state)))
   \<and> AXIS_X (fst (module_init rest_state)) = 5
   \<and> AXIS_Y (fst (module_init rest_state)) = 6"
proof -
  let ?calls = "[Quat_project 3 1 0 0 (Some 5), Quat_to_dir 3 5 (Some 5), Euler_to_quat 4 None,
    Xz_direction [Typed_array 3] (Some 4), Line_plane_intersect [] (Some 6), Sign (Fin 5)]"
  have init: "module_init rest_state = (fst (module_init rest_state), snd (module_init rest_state))"
    by simp
  have dot: "js_neq (vec3_dot (rnd rest_env) (heap (snd (module_init rest_state)) 0)
      (heap (snd (module_init rest_state)) 0)) (Fin 0)"
    by (simp add: module_init_result js_neq_zero dot_Y_Y)
  have "\<forall>r \<in> axis_refs (fst (module_init rest_state)).
      \<not> overwritten rest_env r ?calls (snd (module_init rest_state))"
    using dot by (simp add: axis_refs_def overwrites_def module_init_result)
  with axis_constants_preserved [OF init, of rest_env ?calls] show ?thesis
    by (simp add: module_init_result)
qed

text \<open>
  Claim C8 as stated fails: \<open>euler_to_quat\<close> called on the zero euler triple with the
  constant \<open>AXIS_X\<close> as its destination writes the identity quaternion into it, and
  \<open>AXIS_X\<close> is \<open>(0, 0, 0)\<close> afterwards.
\<close>

theorem axis_constants_overwritten:
  "heap (run rest_env [Euler_to_quat 4 (Some (AXIS_X (fst (module_init rest_state))))]
           (snd (module_init rest_state))) (AXIS_X (fst (module_init rest_state)))
     = [Fin 0, Fin 0, Fin 0]
   \<and> \<not> axes_hold (fst (module_init rest_state))
        (run rest_env [Euler_to_quat 4 (Some (AXIS_X (fst (module_init rest_state))))]
           (snd (module_init rest_state)))"
  by (simp add: module_init_result run_def euler_to_quat_def util_euler_to_quat_def heap_store
      axes_hold_def assign_def identity_quat_def AXIS_X_val_def)

section \<open>The scalar functions\<close>

lemma exp_neg_div_tendsto_0:
  assumes "0 < period"
  shows "((\<lambda>delta. exp (- delta / period)) \<longlongrightarrow> (0::real)) at_top"
proof -
  have "LIM delta at_top. (- 1 / period) * delta :> at_bot"
    by (rule filterlim_tendsto_neg_mult_at_bot [OF tendsto_const _ filterlim_ident])
      (use assms in simp)
  then have "LIM delta at_top. - delta / period :> at_bot"
    by (simp add: field_simps)
  then show ?thesis
    by (rule filterlim_compose [OF exp_at_bot])
qed

lemma formula_tendsto_curr:
  assumes "0 < period"
  shows "((\<lambda>delta. l + (c - l) * (1 - exp (- delta / period))) \<longlongrightarrow> (c::real)) at_top"
proof -
  have "((\<lambda>delta. l + (c - l) * (1 - exp (- delta / period))) \<longlongrightarrow> l + (c - l) * (1 - 0)) at_top"
    by (intro tendsto_intros exp_neg_div_tendsto_0 assms)
  then show ?thesis by simp
qed

text \<open>
  Claim C7, as amended: for every nonzero period \<open>smooth\<close> is
  \<open>last + (curr - last) * (1 - exp(-delta/period))\<close>, and \<open>last\<close> at
  \<open>delta = 0\<close>; for every positive period the result converges to \<open>curr\<close> as
  \<open>delta\<close> grows without bound.
\<close>

theorem smooth_formula:
  "(period \<noteq> 0 \<longrightarrow>
      smooth curr' last' delta period
        = Some (last' + (curr' - last') * (1 - exp (- delta / period)))
      \<and> smooth curr' last' 0 period = Some last')
   \<and> (0 < period \<longrightarrow>
      ((\<lambda>delta. the (smooth curr' last' delta period)) \<longlongrightarrow> curr') at_top)"
proof (intro conjI impI)
  assume "0 < period"
  then have "(\<lambda>delta. the (smooth curr' last' delta period))
      = (\<lambda>delta. last' + (curr' - last') * (1 - exp (- delta / period)))"
    by (simp add: smooth_def util_smooth_def)
  with formula_tendsto_curr [OF \<open>0 < period\<close>]
  show "((\<lambda>delta. the (smooth curr' last' delta period)) \<longlongrightarrow> curr') at_top"
    by simp
qed (simp_all add: smooth_def util_smooth_def)

theorem smooth_formula_witness:
  "smooth 10 0 0 2 = Some 0 \<and> smooth 10 0 2 2 = Some (10 * (1 - exp (- 1)))
   \<and> ((\<lambda>delta. the (smooth 10 0 delta 2)) \<longlongrightarrow> 10) at_top"
  using smooth_formula [of 2 10 0 2] by simp

text \<open>
  Claim C7 as stated fails: \<open>smooth(10, 0, 0, 0)\<close> is not \<open>last\<close> (the quotient
  \<open>0/0\<close> is NaN), and with the negative period \<open>-1\<close> the result
  \<open>10 * (1 - exp(delta))\<close> does not converge to \<open>curr = 10\<close>.
\<close>

theorem smooth_counterexample:
  "smooth 10 0 0 0 \<noteq> Some 0
   \<and> \<not> ((\<lambda>delta. the (smooth 10 0 delta (- 1))) \<longlongrightarrow> 10) at_top"
proof
  show "smooth 10 0 0 0 \<noteq> Some 0" by (simp add: smooth_def util_smooth_def)
  show "\<not> ((\<lambda>delta. the (smooth 10 0 delta (- 1))) \<longlongrightarrow> 10) at_top"
  proof
    assume "((\<lambda>delta. the (smooth 10 0 delta (- 1))) \<longlongrightarrow> 10) at_top"
    then have "((\<lambda>delta::real. 10 * (1 - exp delta)) \<longlongrightarrow> (10::real)) at_top"
      by (simp add: smooth_def util_smooth_def)
    then have "((\<lambda>delta::real. 1 - (10 * (1 - exp delta)) / 10) \<longlongrightarrow> 1 - 10 / (10::real)) at_top"
      by (intro tendsto_intros) simp_all
    moreover have "(\<lambda>delta::real. 1 - (10 * (1 - exp delta)) / 10) = (\<lambda>delta. exp delta)"
      by (rule ext) (simp add: field_simps)
    ultimately have "((\<lambda>delta::real. exp delta) \<longlongrightarrow> (0::real)) at_top"
      by simp
    moreover have "filterlim (\<lambda>delta::real. exp delta) at_infinity at_top"
      by (rule filterlim_at_top_imp_at_infinity [OF exp_at_top])
    ultimately show False
      using not_tendsto_and_filterlim_at_infinity [of at_top "\<lambda>delta::real. exp delta" 0]
      by simp
  qed
qed

lemma two_pi_pos: "0 < 2 * pi" by simp

text \<open>
  Claim C9: \<open>angle_wrap_0_2pi(angle)\<close> lies in \<open>[0, 2\<pi>)\<close> and differs from
  \<open>angle\<close> by an integer multiple of \<open>2\<pi>\<close>; \<open>-\<pi>/2\<close> wraps to
  \<open>3\<pi>/2\<close> and \<open>5\<pi>\<close> to \<open>\<pi>\<close>.
\<close>

theorem angle_wrap_0_2pi_range:
  "0 \<le> angle_wrap_0_2pi angle \<and> angle_wrap_0_2pi angle < 2 * pi
   \<and> (\<exists>k::int. angle_wrap_0_2pi angle = angle + 2 * pi * of_int k)
   \<and> angle_wrap_0_2pi (- pi / 2) = 3 * pi / 2
   \<and> angle_wrap_0_2pi (5 * pi) = pi"
proof -
  define n where "n = \<lfloor>angle / (2 * pi)\<rfloor>"
  have w: "angle_wrap_0_2pi angle = angle - 2 * pi * of_int n"
    by (simp add: angle_wrap_0_2pi_def util_angle_wrap_0_2pi_def n_def)
  have lo: "of_int n \<le> angle / (2 * pi)" and hi: "angle / (2 * pi) < of_int n + 1"
    unfolding n_def by linarith+
  from lo have "of_int n * (2 * pi) \<le> angle"
    using two_pi_pos by (simp add: pos_le_divide_eq)
  then have a: "0 \<le> angle_wrap_0_2pi angle" by (simp add: w mult.commute)
  from hi have "angle < (of_int n + 1) * (2 * pi)"
    using two_pi_pos by (simp add: pos_divide_less_eq)
  then have b: "angle_wrap_0_2pi angle < 2 * pi" by (simp add: w algebra_simps)
  have c: "\<exists>k::int. angle_wrap_0_2pi angle = angle + 2 * pi * of_int k"
    by (rule exI [of _ "- n"]) (simp add: w)
  have "(- pi / 2) / (2 * pi) = - (1 / 4)" by simp
  then have "\<lfloor>(- pi / 2) / (2 * pi)\<rfloor> = - 1" by (simp only:) linarith
  then have d: "angle_wrap_0_2pi (- pi / 2) = 3 * pi / 2"
    by (simp add: angle_wrap_0_2pi_def util_angle_wrap_0_2pi_def)
  have "(5 * pi) / (2 * pi) = 5 / 2" by simp
  then have "\<lfloor>(5 * pi) / (2 * pi)\<rfloor> = 2" by (simp only:) linarith
  then have e: "angle_wrap_0_2pi (5 * pi) = pi"
    by (simp add: angle_wrap_0_2pi_def util_angle_wrap_0_2pi_def)
  from a b c d e show ?thesis by blast
qed

text \<open>
  Claim C10: \<open>sign\<close> returns 1 for a positive value, -1 for a negative value and 0
  for zero, and its result is always one of -1, 0, 1.
\<close>

theorem sign_classifies:
  "(0 < x \<longrightarrow> sign (Fin x) = Fin 1) \<and> (x < 0 \<longrightarrow> sign (Fin x) = Fin (- 1))
   \<and> sign (Fin 0) = Fin 0 \<and> sign PInf = Fin 1 \<and> sign NInf = Fin (- 1)
   \<and> sign v \<in> {Fin (- 1), Fin 0, Fin 1}"
  by (simp add: sign_def util_sign_def)

theorem sign_classifies_witness:
  "sign (Fin 5) = Fin 1 \<and> sign (Fin (- 3)) = Fin (- 1) \<and> sign (Fin 0) = Fin 0"
  using sign_classifies [of 5] sign_classifies [of "- 3"] by simp

end
